theory Spec2Isabelle
  imports Main "HOL-Library.AList"
begin

section \<open>JavaScript values\<close>

text \<open>
  The payloads handled by the mocker have the TypeScript type \<open>any\<close>: request bodies,
  parsed response bodies and the stored \<open>response\<close> field. They are modelled as JSON
  trees extended with \<open>undefined\<close>. Numbers are restricted to the integers a JavaScript
  number holds exactly and prints in plain decimal (magnitude below 2 to the power 53; the
  source does no arithmetic on payloads), strings are lists of code units below 256, and
  an object is the list of its own enumerable properties in enumeration order.
\<close>

datatype jsval =
    JUndefined
  | JNull
  | JBool bool
  | JNum int
  | JStr string
  | JArr "jsval list"
  | JObj "(string \<times> jsval) list"

text \<open>JavaScript truthiness, as used by \<open>requestBody || {}\<close> and \<open>init?.method || 'GET'\<close>.\<close>

fun truthy :: "jsval \<Rightarrow> bool" where
  "truthy JUndefined = False"
| "truthy JNull = False"
| "truthy (JBool b) = b"
| "truthy (JNum n) = (n \<noteq> 0)"
| "truthy (JStr s) = (s \<noteq> [])"
| "truthy (JArr xs) = True"
| "truthy (JObj kvs) = True"

subsection \<open>Number to string\<close>

definition digitChar :: "nat \<Rightarrow> char" where
  "digitChar d = ''0123456789'' ! d"

fun natToString :: "nat \<Rightarrow> string" where
  "natToString n =
     (if n < 10 then [digitChar n] else natToString (n div 10) @ [digitChar (n mod 10)])"

declare natToString.simps [simp del]

text \<open>
  The decimal form a template literal and \<open>JSON.stringify\<close> give to an integer of
  magnitude below 10 to the power 21; from there on JavaScript prints an exponent form,
  which is outside this model. The numbers the source itself prints, the 32-bit hash and
  the status code, are within the range.
\<close>

definition numberToString :: "int \<Rightarrow> string" where
  "numberToString i =
     (if i < 0 then CHR ''-'' # natToString (nat (- i)) else natToString (nat i))"

subsection \<open>\<open>JSON.stringify\<close>\<close>

definition hexDigit :: "nat \<Rightarrow> char" where
  "hexDigit d = ''0123456789abcdef'' ! d"

text \<open>
  The escapes of \<open>QuoteJSONString\<close>: backspace, tab, line feed, form feed, carriage
  return, the double quote (code 34) and the backslash (code 92) have two-character
  escapes, every other control character is written \<open>\u00xx\<close>.
\<close>

definition quoteChar :: "char \<Rightarrow> string" where
  "quoteChar c =
     (let n = (of_char c :: nat) in
      if n = 8 then [CHR 0x5C, CHR ''b'']
      else if n = 9 then [CHR 0x5C, CHR ''t'']
      else if n = 10 then [CHR 0x5C, CHR ''n'']
      else if n = 12 then [CHR 0x5C, CHR ''f'']
      else if n = 13 then [CHR 0x5C, CHR ''r'']
      else if n = 34 then [CHR 0x5C, CHR 0x22]
      else if n = 92 then [CHR 0x5C, CHR 0x5C]
      else if n < 32 then
        [CHR 0x5C, CHR ''u'', CHR ''0'', CHR ''0'', hexDigit (n div 16), hexDigit (n mod 16)]
      else [c])"

definition quoteJSONString :: "string \<Rightarrow> string" where
  "quoteJSONString s = [CHR 0x22] @ concat (map quoteChar s) @ [CHR 0x22]"

fun joinWith :: "string \<Rightarrow> string list \<Rightarrow> string" where
  "joinWith sep [] = []"
| "joinWith sep [x] = x"
| "joinWith sep (x # y # ys) = x @ sep @ joinWith sep (y # ys)"

text \<open>
  \<open>JSON.stringify(v)\<close> with no replacer and no indentation. At top level \<open>undefined\<close>
  gives \<open>undefined\<close> (here \<open>None\<close>); inside an array it is written \<open>null\<close>, and a
  property whose value is \<open>undefined\<close> is left out.
\<close>

fun stringify :: "jsval \<Rightarrow> string option"
  and stringifyElements :: "jsval list \<Rightarrow> string list"
  and stringifyMembers :: "(string \<times> jsval) list \<Rightarrow> string list" where
  "stringify JUndefined = None"
| "stringify JNull = Some ''null''"
| "stringify (JBool b) = Some (if b then ''true'' else ''false'')"
| "stringify (JNum n) = Some (numberToString n)"
| "stringify (JStr s) = Some (quoteJSONString s)"
| "stringify (JArr xs) = Some (''['' @ joinWith '','' (stringifyElements xs) @ '']'')"
| "stringify (JObj kvs) = Some (''{'' @ joinWith '','' (stringifyMembers kvs) @ ''}'')"
| "stringifyElements [] = []"
| "stringifyElements (x # xs) =
     (case stringify x of None \<Rightarrow> ''null'' | Some s \<Rightarrow> s) # stringifyElements xs"
| "stringifyMembers [] = []"
| "stringifyMembers ((k, v) # kvs) =
     (case stringify v of
        None \<Rightarrow> stringifyMembers kvs
      | Some s \<Rightarrow> (quoteJSONString k @ '':'' @ s) # stringifyMembers kvs)"

section \<open>The fingerprint of a request\<close>

text \<open>
  \<open>hashCode\<close> of the source:
  \<^verbatim>\<open>
  let hash = 0;
  if (str.length === 0) return hash;
  for (let i = 0; i < str.length; i++) {
    const char = str.charCodeAt(i);
    hash = ((hash << 5) - hash) + char;
    hash = hash & hash; // Convert to 32bit integer
  }
  return hash;
  \<close>
  \<open>hash << 5\<close> and \<open>hash & hash\<close> both convert their result to a signed 32-bit
  integer (\<open>ToInt32\<close>); the subtraction and the addition between them are exact.
\<close>

definition toInt32 :: "int \<Rightarrow> int" where
  "toInt32 x = (let m = x mod 2 ^ 32 in if m \<ge> 2 ^ 31 then m - 2 ^ 32 else m)"

definition charCodeAt :: "char \<Rightarrow> int" where
  "charCodeAt c = of_char c"

definition hashStep :: "int \<Rightarrow> char \<Rightarrow> int" where
  "hashStep hash c = toInt32 ((toInt32 (hash * 2 ^ 5) - hash) + charCodeAt c)"

definition hashCode :: "string \<Rightarrow> int" where
  "hashCode str = (if length str = 0 then 0 else foldl hashStep 0 str)"

text \<open>
  The key built in \<open>getStoredResponse\<close> and twice in \<open>smartFetch\<close>:
  \<^verbatim>\<open>`${url}_${method}_${hashCode(JSON.stringify(requestBody || {}))}`\<close>.
  The value given to \<open>JSON.stringify\<close> is truthy, so the result is a string
  (lemma \<open>stringify_truthy\<close> below); the \<open>None\<close> branch is never taken.
\<close>

definition requestKey :: "string \<Rightarrow> string \<Rightarrow> jsval \<Rightarrow> string" where
  "requestKey url method requestBody =
     (let v = (if truthy requestBody then requestBody else JObj []) in
      url @ ''_'' @ method @ ''_'' @
        numberToString (hashCode (case stringify v of Some s \<Rightarrow> s | None \<Rightarrow> [])))"

section \<open>Data model\<close>

text \<open>\<open>StoredResponse\<close> of \<open>types.ts\<close>, with its nested \<open>request\<close> object.\<close>

record StoredRequest =
  rq_url :: string
  rq_method :: string
  rq_body :: jsval
  rq_headers :: "(string \<times> string) list option"

record StoredResponse =
  sr_response :: jsval
  sr_timestamp :: string
  sr_headers :: "(string \<times> string) list option"
  sr_request :: StoredRequest

text \<open>\<open>MockConfig\<close> of \<open>types.ts\<close>; \<open>delay\<close> and \<open>request\<close> are optional.\<close>

record MockConfig =
  mc_endpoint :: string
  mc_method :: string
  mc_response :: jsval
  mc_delay :: "int option"
  mc_request :: "(string \<times> string \<times> jsval) option"

text \<open>
  \<open>this.options\<close> after the constructor has filled every field (\<open>??\<close> with the
  environment's defaults).
\<close>

record ApiMockerOptions =
  storeRealResponses :: bool
  storeErrorResponses :: bool
  defaultDelay :: int
  opt_isMocking :: bool

text \<open>
  An \<open>ApiMocker\<close> instance: its options and \<open>this.state\<close>. \<open>storedResponses\<close> is a
  JavaScript \<open>Map\<close>, which keeps insertion order: an association list with distinct
  keys, read with \<open>map_of\<close> and written with \<open>AList.update\<close> (a present key keeps its
  place, a new key goes last).
\<close>

record ApiMocker =
  options :: ApiMockerOptions
  isMocking :: bool
  mocks :: "MockConfig list"
  storedResponses :: "(string \<times> StoredResponse) list"

text \<open>
  A thrown JavaScript value: an \<open>Error\<close> instance with its \<open>name\<close>, \<open>message\<close> and
  \<open>stack\<close> (which may be \<open>undefined\<close>), or any other value.
\<close>

datatype thrown =
    ErrorObj (ename: string) (emessage: string) (estack: "string option")
  | NonError jsval

text \<open>The arguments of \<open>smartFetch\<close>: \<open>RequestInfo\<close> and the fields of \<open>RequestInit\<close> it reads.\<close>

datatype RequestInfo = InputString string | InputRequest string

record RequestInit =
  ri_method :: "string option"
  ri_body :: jsval
  ri_headers :: "(string \<times> string) list option"

text \<open>
  A \<open>Response\<close> of the live call: status line, headers, and what \<open>response.json()\<close>
  gives (the parsed body, or the error it rejects with). \<open>response.ok\<close> is the status
  being in the range 200 to 299.
\<close>

record Response =
  resp_status :: int
  resp_statusText :: string
  resp_headers :: "(string \<times> string) list"
  resp_json :: "thrown + jsval"

definition resp_ok :: "Response \<Rightarrow> bool" where
  "resp_ok r = (200 \<le> resp_status r \<and> resp_status r \<le> 299)"

datatype fetch_outcome = FetchThrows thrown | FetchResolves Response

text \<open>
  The \<open>MockResponse\<close> object literals built by \<open>smartFetch\<close>. \<open>json\<close> is always
  \<open>() => Promise.resolve(x)\<close>, so the field holds \<open>x\<close>. \<open>clone\<close> and \<open>text\<close> are
  closures; the field records which closure it is and what it has captured:
  \<^item> \<open>CloneOfResponseVar\<close> is \<open>() => response.clone()\<close>, with the value of the
    block-scoped \<open>const response\<close> when the closure runs: \<open>None\<close> when the declaration
    at line 262 was never reached;
  \<^item> \<open>CloneOfError j\<close> is the closure of the failure value, returning an object whose
    \<open>json()\<close> resolves to \<open>j\<close>;
  \<^item> \<open>TextResolves s\<close> is \<open>() => Promise.resolve(s)\<close> and \<open>TextOfResponse r\<close> is
    \<open>() => response.text()\<close>.
\<close>

datatype clone_closure = CloneOfResponseVar "Response option" | CloneOfError jsval

datatype text_closure = TextResolves "string option" | TextOfResponse Response

record MockResponse =
  mr_json :: jsval
  mr_headers :: "(string \<times> string) list option"
  mr_ok :: bool
  mr_status :: int
  mr_statusText :: string
  mr_clone :: clone_closure
  mr_text :: text_closure

section \<open>The environment\<close>

text \<open>
  What the class reaches outside itself. The platform: \<open>fetch\<close> (the live call),
  the clock read by \<open>new Date().toISOString()\<close>, the stack trace an \<open>Error\<close> created
  inside \<open>smartFetch\<close> receives, and the \<open>clone\<close> and \<open>text\<close> methods of a
  \<open>Response\<close> whose body \<open>smartFetch\<close> has already read.
\<close>

record Platform =
  fetch :: "string \<Rightarrow> RequestInit option \<Rightarrow> fetch_outcome"
  now :: string
  errorStack :: "string option"
  responseClone :: "Response \<Rightarrow> thrown + Response"
  responseText :: "Response \<Rightarrow> thrown + string"

text \<open>
  The world that calls change: the storage file (absent, or holding the mapping last
  written), whether \<open>fs.writeFile\<close> fails and with which error, and the trace of calls
  made to the live-call capability and to the persistence functions of \<open>storage.ts\<close>.
\<close>

datatype durable_store = FileMissing | FileHolds "(string \<times> StoredResponse) list"

datatype effect =
    LiveCall string "RequestInit option"
  | SaveResponsesCall "(string \<times> StoredResponse) list"
  | ClearResponsesCall

record World =
  durable :: durable_store
  writeError :: "thrown option"
  trace :: "effect list"

section \<open>\<open>storage.ts\<close>\<close>

text \<open>
  \<open>saveResponses\<close> writes \<open>JSON.stringify(responses, null, 2)\<close> to the storage file;
  \<open>clearResponses\<close> writes \<open>'{}'\<close>, which is the text \<open>saveResponses\<close> writes for the
  empty mapping. A failing \<open>fs.writeFile\<close> rejects and leaves the file as it was.
  The file is modelled by the mapping whose serialisation it holds. (The repository
  holds a second version of the module, whose \<open>clearResponses\<close> removes the file
  instead; the class calls neither.)
\<close>

definition writeFile ::
  "World \<Rightarrow> (string \<times> StoredResponse) list \<Rightarrow> (thrown + unit) \<times> World" where
  "writeFile w content =
     (case writeError w of
        Some e \<Rightarrow> (Inl e, w)
      | None \<Rightarrow> (Inr (), w\<lparr>durable := FileHolds content\<rparr>))"

definition saveResponses ::
  "World \<Rightarrow> (string \<times> StoredResponse) list \<Rightarrow> (thrown + unit) \<times> World" where
  "saveResponses w responses =
     writeFile (w\<lparr>trace := trace w @ [SaveResponsesCall responses]\<rparr>) responses"

definition clearResponses :: "World \<Rightarrow> (thrown + unit) \<times> World" where
  "clearResponses w = writeFile (w\<lparr>trace := trace w @ [ClearResponsesCall]\<rparr>) []"

section \<open>The \<open>ApiMocker\<close> class\<close>

text \<open>
  The class is in \<open>src/unnamed/part_001\<close>; line numbers below are lines of that
  file. A method that mutates \<open>this\<close> takes the instance and returns the new one; an
  asynchronous method also takes and returns the world, and its result is \<open>Inl\<close> of
  the value it rejects with or \<open>Inr\<close> of the value it resolves to.

  \<open>saveToStorage\<close>: the whole mapping is written, and only when real-response storage
  is enabled.
\<close>

definition saveToStorage :: "ApiMocker \<Rightarrow> World \<Rightarrow> (thrown + unit) \<times> World" where
  "saveToStorage st w =
     (if storeRealResponses (options st) then saveResponses w (storedResponses st)
      else (Inr (), w))"

definition enableMocking :: "ApiMocker \<Rightarrow> ApiMocker" where
  "enableMocking st = st\<lparr>isMocking := True\<rparr>"

definition disableMocking :: "ApiMocker \<Rightarrow> ApiMocker" where
  "disableMocking st = st\<lparr>isMocking := False\<rparr>"

text \<open>
  \<^verbatim>\<open>
  const exists = this.state.mocks.some(
    (m) => m.endpoint === config.endpoint && m.method === config.method);
  if (!exists) {
    const delay = config.delay ?? this.options.defaultDelay;
    this.state.mocks.push({ ...config, delay });
  }
  \<close>
\<close>

definition addMock :: "ApiMocker \<Rightarrow> MockConfig \<Rightarrow> ApiMocker" where
  "addMock st config =
     (let exists = list_ex
            (\<lambda>m. mc_endpoint m = mc_endpoint config \<and> mc_method m = mc_method config)
            (mocks st)
      in if \<not> exists then
           (let delay = (case mc_delay config of
                           None \<Rightarrow> defaultDelay (options st)
                         | Some d \<Rightarrow> d)
            in st\<lparr>mocks := mocks st @ [config\<lparr>mc_delay := Some delay\<rparr>]\<rparr>)
         else st)"

text \<open>
  \<^verbatim>\<open>return this.state.storedResponses.get(key)\<close>, with the key of the request.
\<close>

definition getStoredResponse ::
  "ApiMocker \<Rightarrow> string \<Rightarrow> string \<Rightarrow> jsval \<Rightarrow> StoredResponse option" where
  "getStoredResponse st url method requestBody =
     map_of (storedResponses st) (requestKey url method requestBody)"

definition getStoredResponses :: "ApiMocker \<Rightarrow> StoredResponse list" where
  "getStoredResponses st = map snd (storedResponses st)"

text \<open>
  \<^verbatim>\<open>
  this.state.storedResponses = new Map<string, StoredResponse>();
  await this.saveToStorage();
  \<close>
\<close>

definition clearStoredResponses ::
  "ApiMocker \<Rightarrow> World \<Rightarrow> (thrown + unit) \<times> ApiMocker \<times> World" where
  "clearStoredResponses st w =
     (let st' = st\<lparr>storedResponses := []\<rparr>;
          (r, w') = saveToStorage st' w
      in (r, st', w'))"

definition enableErrorResponseStorage :: "ApiMocker \<Rightarrow> ApiMocker" where
  "enableErrorResponseStorage st = st\<lparr>options := (options st)\<lparr>storeErrorResponses := True\<rparr>\<rparr>"

definition disableErrorResponseStorage :: "ApiMocker \<Rightarrow> ApiMocker" where
  "disableErrorResponseStorage st = st\<lparr>options := (options st)\<lparr>storeErrorResponses := False\<rparr>\<rparr>"

definition enableRealResponseStorage :: "ApiMocker \<Rightarrow> ApiMocker" where
  "enableRealResponseStorage st = st\<lparr>options := (options st)\<lparr>storeRealResponses := True\<rparr>\<rparr>"

definition disableRealResponseStorage :: "ApiMocker \<Rightarrow> ApiMocker" where
  "disableRealResponseStorage st = st\<lparr>options := (options st)\<lparr>storeRealResponses := False\<rparr>\<rparr>"

text \<open>
  \<^verbatim>\<open>headers.forEach((value, key) => { result[key] = value; })\<close>: a later entry
  with the same name replaces the earlier value. A \<open>Headers\<close> object is the list of its
  entries; \<open>new Headers(init.headers)\<close> is taken as already built.
\<close>

definition headersToRecord :: "(string \<times> string) list \<Rightarrow> (string \<times> string) list" where
  "headersToRecord headers = foldl (\<lambda>result (key, v). AList.update key v result) [] headers"

subsection \<open>\<open>smartFetch\<close>\<close>

text \<open>Lines 240 to 242: the url, the method and the body of the request.\<close>

definition inputUrl :: "RequestInfo \<Rightarrow> string" where
  "inputUrl input = (case input of InputString s \<Rightarrow> s | InputRequest u \<Rightarrow> u)"

definition requestMethod :: "RequestInit option \<Rightarrow> string" where
  "requestMethod init =
     (case init of
        None \<Rightarrow> ''GET''
      | Some i \<Rightarrow> (case ri_method i of
                    None \<Rightarrow> ''GET''
                  | Some m \<Rightarrow> if m = [] then ''GET'' else m))"

definition requestBodyOf :: "RequestInit option \<Rightarrow> jsval" where
  "requestBodyOf init = (case init of None \<Rightarrow> JUndefined | Some i \<Rightarrow> ri_body i)"

text \<open>
  \<^verbatim>\<open>init?.headers ? this.headersToRecord(new Headers(init.headers)) : undefined\<close>
\<close>

definition requestHeaders :: "RequestInit option \<Rightarrow> (string \<times> string) list option" where
  "requestHeaders init =
     (case init of
        None \<Rightarrow> None
      | Some i \<Rightarrow> (case ri_headers i of
                    None \<Rightarrow> None
                  | Some h \<Rightarrow> Some (headersToRecord h)))"

definition storedRequest :: "RequestInfo \<Rightarrow> RequestInit option \<Rightarrow> StoredRequest" where
  "storedRequest input init =
     \<lparr>rq_url = inputUrl input, rq_method = requestMethod init,
      rq_body = requestBodyOf init, rq_headers = requestHeaders init\<rparr>"

text \<open>\<open>fetchWithAgent\<close>: the live call, recorded in the trace.\<close>

definition fetchWithAgent ::
  "Platform \<Rightarrow> World \<Rightarrow> RequestInfo \<Rightarrow> RequestInit option \<Rightarrow> fetch_outcome \<times> World" where
  "fetchWithAgent p w input init =
     (fetch p (inputUrl input) init,
      w\<lparr>trace := trace w @ [LiveCall (inputUrl input) init]\<rparr>)"

text \<open>The object returned at lines 249 to 257 on a cache hit.\<close>

definition cacheHitResponse :: "StoredResponse \<Rightarrow> MockResponse" where
  "cacheHitResponse storedResponse =
     \<lparr>mr_json = sr_response storedResponse,
      mr_headers = sr_headers storedResponse,
      mr_ok = True,
      mr_status = 200,
      mr_statusText = ''OK'',
      mr_clone = CloneOfResponseVar None,
      mr_text = TextResolves (stringify (sr_response storedResponse))\<rparr>"

text \<open>The \<open>Error\<close> thrown at line 267 for a response that is not \<open>ok\<close>.\<close>

definition httpError :: "Platform \<Rightarrow> Response \<Rightarrow> thrown" where
  "httpError p response =
     (let errorData = (case resp_json response of Inl e \<Rightarrow> JObj [] | Inr d \<Rightarrow> d) in
      ErrorObj ''Error''
        (''HTTP error! status: '' @ numberToString (resp_status response) @ '', '' @
         resp_statusText response @ '', data: '' @
         (case stringify errorData of None \<Rightarrow> ''undefined'' | Some s \<Rightarrow> s))
        (errorStack p))"

text \<open>The record stored at lines 277 to 291 and the object returned at lines 296 to 304.\<close>

definition successRecord ::
  "Platform \<Rightarrow> RequestInfo \<Rightarrow> RequestInit option \<Rightarrow> Response \<Rightarrow> jsval \<Rightarrow> StoredResponse" where
  "successRecord p input init response data =
     \<lparr>sr_response = JObj [(''data'', data), (''error'', JNull), (''success'', JBool True)],
      sr_timestamp = now p,
      sr_headers = Some (headersToRecord (resp_headers response)),
      sr_request = storedRequest input init\<rparr>"

definition liveResponse :: "Response \<Rightarrow> jsval \<Rightarrow> MockResponse" where
  "liveResponse response data =
     \<lparr>mr_json = data,
      mr_headers = Some (headersToRecord (resp_headers response)),
      mr_ok = resp_ok response,
      mr_status = resp_status response,
      mr_statusText = resp_statusText response,
      mr_clone = CloneOfResponseVar (Some response),
      mr_text = TextOfResponse response\<rparr>"

text \<open>
  The \<open>try\<close> block, lines 244 to 305. \<open>Inl\<close> is a value thrown inside the block
  (by the live call, by line 267, by \<open>response.json()\<close> or by \<open>saveToStorage\<close>), which
  the \<open>catch\<close> clause receives together with the state and world reached so far.
\<close>

definition smartFetchTry ::
  "Platform \<Rightarrow> ApiMocker \<Rightarrow> World \<Rightarrow> RequestInfo \<Rightarrow> RequestInit option
     \<Rightarrow> (thrown + MockResponse) \<times> ApiMocker \<times> World" where
  "smartFetchTry p st w input init =
     (let url = inputUrl input;
          method = requestMethod init;
          requestBody = requestBodyOf init;
          hit = (if isMocking st then getStoredResponse st url method requestBody else None)
      in case hit of
           Some storedResponse \<Rightarrow> (Inr (cacheHitResponse storedResponse), st, w)
         | None \<Rightarrow>
            (case fetchWithAgent p w input init of
               (FetchThrows e, w1) \<Rightarrow> (Inl e, st, w1)
             | (FetchResolves response, w1) \<Rightarrow>
                 if \<not> resp_ok response then (Inl (httpError p response), st, w1)
                 else
                   (case resp_json response of
                      Inl e \<Rightarrow> (Inl e, st, w1)
                    | Inr data \<Rightarrow>
                        if storeRealResponses (options st) then
                          (let key = requestKey url method requestBody;
                               st' = st\<lparr>storedResponses :=
                                  AList.update key (successRecord p input init response data)
                                    (storedResponses st)\<rparr>
                           in case saveToStorage st' w1 of
                                (Inl e, w2) \<Rightarrow> (Inl e, st', w2)
                              | (Inr u, w2) \<Rightarrow> (Inr (liveResponse response data), st', w2))
                        else (Inr (liveResponse response data), st, w1))))"

text \<open>
  The \<open>catch\<close> clause, lines 306 to 362. The error detail object appears four times in
  the source with the same fields.
\<close>

definition errorMessage :: "thrown \<Rightarrow> string" where
  "errorMessage error = (case error of ErrorObj n m s \<Rightarrow> m | NonError v \<Rightarrow> ''Unknown error'')"

definition errorName :: "thrown \<Rightarrow> string" where
  "errorName error = (case error of ErrorObj n m s \<Rightarrow> n | NonError v \<Rightarrow> ''Error'')"

definition errorStackValue :: "thrown \<Rightarrow> jsval" where
  "errorStackValue error =
     (case error of
        ErrorObj n m s \<Rightarrow> (case s of None \<Rightarrow> JUndefined | Some t \<Rightarrow> JStr t)
      | NonError v \<Rightarrow> JNull)"

definition errorPayload :: "thrown \<Rightarrow> jsval" where
  "errorPayload error =
     JObj [(''error'', JObj [(''message'', JStr (errorMessage error)),
                             (''name'', JStr (errorName error)),
                             (''stack'', errorStackValue error)]),
           (''data'', JNull),
           (''success'', JBool False)]"

definition errorRecord ::
  "Platform \<Rightarrow> RequestInfo \<Rightarrow> RequestInit option \<Rightarrow> thrown \<Rightarrow> StoredResponse" where
  "errorRecord p input init error =
     \<lparr>sr_response = errorPayload error,
      sr_timestamp = now p,
      sr_headers = Some [],
      sr_request = storedRequest input init\<rparr>"

definition isTypeError :: "thrown \<Rightarrow> bool" where
  "isTypeError error = (case error of ErrorObj n m s \<Rightarrow> n = ''TypeError'' | NonError v \<Rightarrow> False)"

definition failureResponse :: "thrown \<Rightarrow> MockResponse" where
  "failureResponse error =
     \<lparr>mr_json = errorPayload error,
      mr_headers = Some [],
      mr_ok = False,
      mr_status = (if isTypeError error then 0 else 500),
      mr_statusText = errorMessage error,
      mr_clone = CloneOfError (errorPayload error),
      mr_text = TextResolves (Some (errorMessage error))\<rparr>"

text \<open>
  What the promise of \<open>smartFetch\<close> rejects with: the response-shaped failure value
  thrown at line 335, or the raw error of a \<open>saveToStorage\<close> that fails inside the
  \<open>catch\<close> clause (line 331), which nothing catches.
\<close>

datatype rejection = RejectMock MockResponse | RejectRaw thrown

definition smartFetchCatch ::
  "Platform \<Rightarrow> ApiMocker \<Rightarrow> World \<Rightarrow> RequestInfo \<Rightarrow> RequestInit option \<Rightarrow> thrown
     \<Rightarrow> (rejection + MockResponse) \<times> ApiMocker \<times> World" where
  "smartFetchCatch p st w input init error =
     (if storeRealResponses (options st) \<and> storeErrorResponses (options st) then
        (let key = requestKey (inputUrl input) (requestMethod init) (requestBodyOf init);
             st' = st\<lparr>storedResponses :=
                AList.update key (errorRecord p input init error) (storedResponses st)\<rparr>
         in case saveToStorage st' w of
              (Inl e, w') \<Rightarrow> (Inl (RejectRaw e), st', w')
            | (Inr u, w') \<Rightarrow> (Inl (RejectMock (failureResponse error)), st', w'))
      else (Inl (RejectMock (failureResponse error)), st, w))"

definition smartFetch ::
  "Platform \<Rightarrow> ApiMocker \<Rightarrow> World \<Rightarrow> RequestInfo \<Rightarrow> RequestInit option
     \<Rightarrow> (rejection + MockResponse) \<times> ApiMocker \<times> World" where
  "smartFetch p st w input init =
     (case smartFetchTry p st w input init of
        (Inr response, st', w') \<Rightarrow> (Inr response, st', w')
      | (Inl error, st', w') \<Rightarrow> smartFetchCatch p st' w' input init error)"

subsection \<open>Calling the accessors of a \<open>MockResponse\<close>\<close>

text \<open>
  \<open>() => response.clone()\<close> run while \<open>response\<close> is uninitialised throws: reading a
  \<open>const\<close> before its declaration has run is a \<open>ReferenceError\<close> (and when the
  compiler lowers \<open>const\<close> to \<open>var\<close>, \<open>undefined.clone\<close> is a \<open>TypeError\<close>).
\<close>

datatype clone_result = ClonedResponse Response | ClonedErrorView jsval

definition callClone :: "Platform \<Rightarrow> MockResponse \<Rightarrow> thrown + clone_result" where
  "callClone p m =
     (case mr_clone m of
        CloneOfResponseVar None \<Rightarrow>
          Inl (ErrorObj ''ReferenceError'' ''Cannot access response before initialization'' None)
      | CloneOfResponseVar (Some r) \<Rightarrow>
          (case responseClone p r of Inl e \<Rightarrow> Inl e | Inr c \<Rightarrow> Inr (ClonedResponse c))
      | CloneOfError j \<Rightarrow> Inr (ClonedErrorView j))"

definition callJson :: "MockResponse \<Rightarrow> thrown + jsval" where
  "callJson m = Inr (mr_json m)"

definition callText :: "Platform \<Rightarrow> MockResponse \<Rightarrow> thrown + string option" where
  "callText p m =
     (case mr_text m of
        TextResolves s \<Rightarrow> Inr s
      | TextOfResponse r \<Rightarrow> (case responseText p r of Inl e \<Rightarrow> Inl e | Inr s \<Rightarrow> Inr (Some s)))"

section \<open>Example scenarios\<close>

text \<open>
  Concrete platforms, instances and worlds on which the theorems below are run: a
  platform whose live call always has the given outcome, a fresh instance with the given
  options, and a world with no storage file yet and a working file system.
\<close>

definition examplePlatform :: "fetch_outcome \<Rightarrow> Platform" where
  "examplePlatform outcome =
     \<lparr>fetch = (\<lambda>url init. outcome),
      now = ''2025-01-15T10:30:00.000Z'',
      errorStack = Some ''Error: HTTP error! at ApiMocker.smartFetch'',
      responseClone = (\<lambda>r. Inl (ErrorObj ''Error'' ''cannot clone body after it is used'' None)),
      responseText = (\<lambda>r. Inl (ErrorObj ''TypeError'' ''body used already'' None))\<rparr>"

definition exampleMocker :: "bool \<Rightarrow> bool \<Rightarrow> bool \<Rightarrow> ApiMocker" where
  "exampleMocker real err mocking =
     \<lparr>options = \<lparr>storeRealResponses = real, storeErrorResponses = err,
                 defaultDelay = 1000, opt_isMocking = mocking\<rparr>,
      isMocking = mocking, mocks = [], storedResponses = []\<rparr>"

definition exampleWorld :: World where
  "exampleWorld = \<lparr>durable = FileMissing, writeError = None, trace = []\<rparr>"

definition okResponse :: Response where
  "okResponse =
     \<lparr>resp_status = 200, resp_statusText = ''OK'',
      resp_headers = [(''content-type'', ''application/json'')],
      resp_json = Inr (JObj [(''a'', JNum 1)])\<rparr>"

definition notFoundResponse :: Response where
  "notFoundResponse =
     \<lparr>resp_status = 404, resp_statusText = ''Not Found'',
      resp_headers = [(''content-type'', ''application/json'')],
      resp_json = Inr (JObj [(''message'', JStr ''no such page'')])\<rparr>"

definition exampleInput :: RequestInfo where
  "exampleInput = InputString ''https://x/y''"

text \<open>
  The record and the error of the examples, the key of the example request, and the
  instance and world reached after one live call has been recorded under that key.
\<close>

definition okRecord :: StoredResponse where
  "okRecord =
     \<lparr>sr_response = JObj [(''data'', JObj [(''a'', JNum 1)]), (''error'', JNull),
                          (''success'', JBool True)],
      sr_timestamp = ''2025-01-15T10:30:00.000Z'',
      sr_headers = Some [(''content-type'', ''application/json'')],
      sr_request = \<lparr>rq_url = ''https://x/y'', rq_method = ''GET'',
                     rq_body = JUndefined, rq_headers = None\<rparr>\<rparr>"

definition notFoundError :: thrown where
  "notFoundError = ErrorObj ''Error''
     (''HTTP error! status: 404, Not Found, data: {'' @ [CHR 0x22] @ ''message'' @ [CHR 0x22]
        @ '':'' @ [CHR 0x22] @ ''no such page'' @ [CHR 0x22] @ ''}'')
     (Some ''Error: HTTP error! at ApiMocker.smartFetch'')"

definition notFoundRecord :: StoredResponse where
  "notFoundRecord =
     \<lparr>sr_response = errorPayload notFoundError,
      sr_timestamp = ''2025-01-15T10:30:00.000Z'',
      sr_headers = Some [],
      sr_request = \<lparr>rq_url = ''https://x/y'', rq_method = ''GET'',
                     rq_body = JUndefined, rq_headers = None\<rparr>\<rparr>"

definition exampleKey :: string where
  "exampleKey = ''https://x/y_GET_3938''"

definition recordedMocker :: "bool \<Rightarrow> bool \<Rightarrow> bool \<Rightarrow> StoredResponse \<Rightarrow> ApiMocker" where
  "recordedMocker real err mocking storedRecord =
     (exampleMocker real err mocking)\<lparr>storedResponses := [(exampleKey, storedRecord)]\<rparr>"

definition recordedWorld :: "StoredResponse \<Rightarrow> World" where
  "recordedWorld storedRecord =
     \<lparr>durable = FileHolds [(exampleKey, storedRecord)], writeError = None,
      trace = [LiveCall ''https://x/y'' None, SaveResponsesCall [(exampleKey, storedRecord)]]\<rparr>"

text \<open>The error of a live call that is given a relative url.\<close>

definition invalidUrlError :: thrown where
  "invalidUrlError = ErrorObj ''TypeError'' ''Invalid URL'' (Some ''TypeError: Invalid URL'')"

text \<open>Static mocks: two registrations for the same endpoint and method, and another one.\<close>

definition pingMock :: MockConfig where
  "pingMock = \<lparr>mc_endpoint = ''/ping'', mc_method = ''GET'',
     mc_response = JObj [(''pong'', JBool True)], mc_delay = Some 50, mc_request = None\<rparr>"

definition pingMockLater :: MockConfig where
  "pingMockLater = \<lparr>mc_endpoint = ''/ping'', mc_method = ''GET'',
     mc_response = JObj [(''pong'', JBool False)], mc_delay = None, mc_request = None\<rparr>"

definition otherMock :: MockConfig where
  "otherMock = \<lparr>mc_endpoint = ''/api/users'', mc_method = ''GET'',
     mc_response = JObj [(''total'', JNum 2)], mc_delay = None, mc_request = None\<rparr>"

section \<open>The paths of \<open>smartFetch\<close>\<close>

lemma stringify_truthy: "truthy v \<Longrightarrow> stringify v \<noteq> None"
  by (cases v) simp_all

lemma smartFetch_cache_hit:
  assumes "isMocking st"
    and "getStoredResponse st (inputUrl input) (requestMethod init) (requestBodyOf init) = Some sr"
  shows "smartFetch p st w input init = (Inr (cacheHitResponse sr), st, w)"
  using assms by (simp add: smartFetch_def smartFetchTry_def)

lemma smartFetchTry_throws:
  assumes "\<not> isMocking st \<or>
      getStoredResponse st (inputUrl input) (requestMethod init) (requestBodyOf init) = None"
    and "fetch p (inputUrl input) init = FetchThrows e"
  shows "smartFetchTry p st w input init =
      (Inl e, st, w\<lparr>trace := trace w @ [LiveCall (inputUrl input) init]\<rparr>)"
  using assms by (auto simp add: smartFetchTry_def fetchWithAgent_def Let_def)

lemma smartFetchTry_http:
  assumes "\<not> isMocking st \<or>
      getStoredResponse st (inputUrl input) (requestMethod init) (requestBodyOf init) = None"
    and "fetch p (inputUrl input) init = FetchResolves r"
    and "\<not> resp_ok r"
  shows "smartFetchTry p st w input init =
      (Inl (httpError p r), st, w\<lparr>trace := trace w @ [LiveCall (inputUrl input) init]\<rparr>)"
  using assms by (auto simp add: smartFetchTry_def fetchWithAgent_def Let_def)

lemma smartFetchTry_parse:
  assumes "\<not> isMocking st \<or>
      getStoredResponse st (inputUrl input) (requestMethod init) (requestBodyOf init) = None"
    and "fetch p (inputUrl input) init = FetchResolves r"
    and "resp_ok r" and "resp_json r = Inl e"
  shows "smartFetchTry p st w input init =
      (Inl e, st, w\<lparr>trace := trace w @ [LiveCall (inputUrl input) init]\<rparr>)"
  using assms by (auto simp add: smartFetchTry_def fetchWithAgent_def Let_def)

lemma smartFetchTry_success_unstored:
  assumes "\<not> isMocking st \<or>
      getStoredResponse st (inputUrl input) (requestMethod init) (requestBodyOf init) = None"
    and "fetch p (inputUrl input) init = FetchResolves r"
    and "resp_ok r" and "resp_json r = Inr data"
    and "\<not> storeRealResponses (options st)"
  shows "smartFetchTry p st w input init =
      (Inr (liveResponse r data), st, w\<lparr>trace := trace w @ [LiveCall (inputUrl input) init]\<rparr>)"
  using assms by (auto simp add: smartFetchTry_def fetchWithAgent_def Let_def)

lemma smartFetchTry_success_stored:
  assumes "\<not> isMocking st \<or>
      getStoredResponse st (inputUrl input) (requestMethod init) (requestBodyOf init) = None"
    and "fetch p (inputUrl input) init = FetchResolves r"
    and "resp_ok r" and "resp_json r = Inr data"
    and "storeRealResponses (options st)"
  shows "smartFetchTry p st w input init =
      (let st' = st\<lparr>storedResponses :=
                  AList.update (requestKey (inputUrl input) (requestMethod init) (requestBodyOf init))
                    (successRecord p input init r data) (storedResponses st)\<rparr>;
           w1 = w\<lparr>trace := trace w @ [LiveCall (inputUrl input) init,
                                         SaveResponsesCall (storedResponses st')]\<rparr>
       in case writeError w of
            Some e \<Rightarrow> (Inl e, st', w1)
          | None \<Rightarrow> (Inr (liveResponse r data), st', w1\<lparr>durable := FileHolds (storedResponses st')\<rparr>))"
  using assms
  by (auto simp add: smartFetchTry_def fetchWithAgent_def saveToStorage_def saveResponses_def
      writeFile_def Let_def split: option.splits)

lemma smartFetchCatch_unstored:
  assumes "\<not> (storeRealResponses (options st) \<and> storeErrorResponses (options st))"
  shows "smartFetchCatch p st w input init e = (Inl (RejectMock (failureResponse e)), st, w)"
  using assms by (auto simp add: smartFetchCatch_def)

lemma smartFetchCatch_stored:
  assumes "storeRealResponses (options st)" and "storeErrorResponses (options st)"
  shows "smartFetchCatch p st w input init e =
      (let st' = st\<lparr>storedResponses :=
                  AList.update (requestKey (inputUrl input) (requestMethod init) (requestBodyOf init))
                    (errorRecord p input init e) (storedResponses st)\<rparr>;
           w1 = w\<lparr>trace := trace w @ [SaveResponsesCall (storedResponses st')]\<rparr>
       in case writeError w of
            Some e' \<Rightarrow> (Inl (RejectRaw e'), st', w1)
          | None \<Rightarrow> (Inl (RejectMock (failureResponse e)), st',
                      w1\<lparr>durable := FileHolds (storedResponses st')\<rparr>))"
  using assms
  by (auto simp add: smartFetchCatch_def saveToStorage_def saveResponses_def
      writeFile_def Let_def split: option.splits)

section \<open>Running the examples\<close>

lemma hash_empty_object: "hashCode ''{}'' = 3938"
  by (simp add: hashCode_def hashStep_def toInt32_def charCodeAt_def)

lemma number_3938: "numberToString 3938 = ''3938''"
  by (simp add: numberToString_def natToString.simps digitChar_def)

lemma number_404: "numberToString 404 = ''404''"
  by (simp add: numberToString_def natToString.simps digitChar_def)

lemma example_key: "requestKey ''https://x/y'' ''GET'' JUndefined = exampleKey"
  by (simp add: requestKey_def hash_empty_object number_3938 exampleKey_def)

lemma example_request:
  "inputUrl exampleInput = ''https://x/y''"
  "requestMethod None = ''GET''"
  "requestBodyOf None = JUndefined"
  "requestHeaders None = None"
  by (simp_all add: inputUrl_def exampleInput_def requestMethod_def requestBodyOf_def
      requestHeaders_def)

lemma example_success_record:
  "successRecord (examplePlatform outcome) exampleInput None okResponse (JObj [(''a'', JNum 1)])
     = okRecord"
  by (simp add: successRecord_def okRecord_def examplePlatform_def okResponse_def
      headersToRecord_def storedRequest_def example_request)

lemma example_http_error:
  "httpError (examplePlatform outcome) notFoundResponse = notFoundError"
  by (simp add: httpError_def notFoundResponse_def notFoundError_def examplePlatform_def
      number_404 quoteJSONString_def quoteChar_def)

lemma example_error_record:
  "errorRecord (examplePlatform outcome) exampleInput None notFoundError = notFoundRecord"
  by (simp add: errorRecord_def notFoundRecord_def examplePlatform_def storedRequest_def
      example_request)

lemma example_miss:
  "\<not> isMocking (exampleMocker real err False) \<or>
     getStoredResponse (exampleMocker real err False) (inputUrl exampleInput)
        (requestMethod None) (requestBodyOf None) = None"
  by (simp add: exampleMocker_def)

lemma example_fetch: "fetch (examplePlatform outcome) url init = outcome"
  by (simp add: examplePlatform_def)

lemma example_ok: "resp_ok okResponse" "resp_json okResponse = Inr (JObj [(''a'', JNum 1)])"
  by (simp_all add: resp_ok_def okResponse_def)

lemma example_not_found: "\<not> resp_ok notFoundResponse"
  by (simp add: resp_ok_def notFoundResponse_def)

lemma example_options:
  "storeRealResponses (options (exampleMocker real err mocking)) = real"
  "storeErrorResponses (options (exampleMocker real err mocking)) = err"
  "isMocking (exampleMocker real err mocking) = mocking"
  "storedResponses (exampleMocker real err mocking) = []"
  by (simp_all add: exampleMocker_def)

text \<open>
  A first live call with storage enabled records the response; with error storage
  enabled as well, a live call answered 404 records the failure.
\<close>

lemma recorded_run:
  "smartFetch (examplePlatform (FetchResolves okResponse)) (exampleMocker True err False)
       exampleWorld exampleInput None
   = (Inr (liveResponse okResponse (JObj [(''a'', JNum 1)])),
      recordedMocker True err False okRecord, recordedWorld okRecord)"
  unfolding smartFetch_def
    smartFetchTry_success_stored [OF example_miss example_fetch example_ok, simplified example_options, OF TrueI]
  by (simp add: example_request example_key example_success_record exampleMocker_def exampleWorld_def
      recordedMocker_def recordedWorld_def)

lemma failed_run:
  "smartFetch (examplePlatform (FetchResolves notFoundResponse)) (exampleMocker True True False)
       exampleWorld exampleInput None
   = (Inl (RejectMock (failureResponse notFoundError)),
      recordedMocker True True False notFoundRecord,
      (recordedWorld notFoundRecord))"
  unfolding smartFetch_def
    smartFetchTry_http [OF example_miss example_fetch example_not_found]
  by (simp add: smartFetchCatch_stored example_options example_http_error
       example_request example_key example_error_record exampleMocker_def exampleWorld_def
      recordedMocker_def recordedWorld_def)

section \<open>The static mock registry\<close>

lemma addMock_present:
  assumes "list_ex (\<lambda>m. mc_endpoint m = mc_endpoint c \<and> mc_method m = mc_method c) (mocks st)"
  shows "addMock st c = st"
  using assms by (simp add: addMock_def)

lemma addMock_registers:
  "list_ex (\<lambda>m. mc_endpoint m = mc_endpoint c \<and> mc_method m = mc_method c) (mocks (addMock st c))"
  by (auto simp add: addMock_def Let_def list_ex_iff)

lemma addMock_keeps:
  assumes "list_ex P (mocks st)"
  shows "list_ex P (mocks (addMock st c))"
  using assms by (auto simp add: addMock_def Let_def list_ex_iff)

lemma foldl_addMock_keeps:
  assumes "list_ex P (mocks st)"
  shows "list_ex P (mocks (foldl addMock st cs))"
  using assms by (induction cs arbitrary: st) (simp_all add: addMock_keeps)

text \<open>
  C9. Once a configuration \<open>c1\<close> has been registered, and whatever registrations \<open>cs\<close>
  follow, registering a configuration \<open>c2\<close> with the same endpoint and method leaves the
  whole instance, and so the registry, as it was: the first registration wins and the
  duplicate is dropped without replacing anything.
\<close>

theorem C9_first_registration_wins:
  assumes "mc_endpoint c2 = mc_endpoint c1" and "mc_method c2 = mc_method c1"
  shows "addMock (foldl addMock (addMock st c1) cs) c2 = foldl addMock (addMock st c1) cs"
proof -
  have "list_ex (\<lambda>m. mc_endpoint m = mc_endpoint c1 \<and> mc_method m = mc_method c1)
          (mocks (foldl addMock (addMock st c1) cs))"
    by (rule foldl_addMock_keeps) (rule addMock_registers)
  with assms show ?thesis
    by (simp add: addMock_present)
qed

theorem C9_witness:
  "mc_endpoint pingMockLater = mc_endpoint pingMock \<and>
   mc_method pingMockLater = mc_method pingMock \<and>
   mc_response pingMockLater \<noteq> mc_response pingMock \<and>
   addMock (foldl addMock (addMock (exampleMocker False False True) pingMock) [otherMock])
       pingMockLater
     = foldl addMock (addMock (exampleMocker False False True) pingMock) [otherMock] \<and>
   map mc_response
       (mocks (addMock (foldl addMock (addMock (exampleMocker False False True) pingMock)
                 [otherMock]) pingMockLater))
     = [JObj [(''pong'', JBool True)], JObj [(''total'', JNum 2)]]"
proof -
  have e: "mc_endpoint pingMockLater = mc_endpoint pingMock"
    by (simp add: pingMock_def pingMockLater_def)
  have m: "mc_method pingMockLater = mc_method pingMock"
    by (simp add: pingMock_def pingMockLater_def)
  have r: "mc_response pingMockLater \<noteq> mc_response pingMock"
    by (simp add: pingMock_def pingMockLater_def)
  note same = C9_first_registration_wins [OF e m, of "exampleMocker False False True" "[otherMock]"]
  have "map mc_response
       (mocks (foldl addMock (addMock (exampleMocker False False True) pingMock) [otherMock]))
     = [JObj [(''pong'', JBool True)], JObj [(''total'', JNum 2)]]"
    by (simp add: addMock_def exampleMocker_def pingMock_def otherMock_def)
  with e m r same show ?thesis by simp
qed

section \<open>Cache hits\<close>

lemma recorded_lookup:
  "getStoredResponse (enableMocking (recordedMocker real err mocking storedRecord))
     (inputUrl exampleInput) (requestMethod None) (requestBodyOf None) = Some storedRecord"
  by (simp add: getStoredResponse_def enableMocking_def recordedMocker_def example_request
      example_key)

lemma recorded_mocking: "isMocking (enableMocking st)"
  by (simp add: enableMocking_def)

text \<open>
  What every cache hit does, for any stored record and any options: no outside call is
  made, and the response carries the literals of lines 250 to 256.
\<close>

lemma cache_hit_no_outside_call:
  assumes "isMocking st"
    and "getStoredResponse st (inputUrl input) (requestMethod init) (requestBodyOf init)
           = Some storedRecord"
  shows "trace (snd (snd (smartFetch p st w input init))) = trace w"
  using smartFetch_cache_hit [OF assms] by simp

lemma cache_hit_fields:
  "mr_json (cacheHitResponse storedRecord) = sr_response storedRecord"
  "mr_ok (cacheHitResponse storedRecord)"
  "mr_status (cacheHitResponse storedRecord) = 200"
  "mr_statusText (cacheHitResponse storedRecord) = ''OK''"
  by (simp_all add: cacheHitResponse_def)

text \<open>
  C1. The claim: when mocking is enabled and a record is stored under the fingerprint
  of the request, no live call is made and \<open>json()\<close> of the returned response is
  exactly the stored success payload. The source keeps the first half and misses the
  second. With storage enabled, a live call answered \<open>{a: 1}\<close> resolves with
  \<open>json() = {a: 1}\<close> (line 297) and stores the envelope
  \<open>{data: {a: 1}, error: null, success: true}\<close> (lines 278 to 282). After mocking is
  enabled the same request hits that record and makes no live call, but its \<open>json()\<close>
  gives the whole envelope (line 250), not the payload \<open>{a: 1}\<close> the live call gave.
\<close>

theorem C1_replay_returns_envelope:
  "fst (smartFetch (examplePlatform (FetchResolves okResponse))
          (exampleMocker True False False) exampleWorld exampleInput None)
     = Inr (liveResponse okResponse (JObj [(''a'', JNum 1)])) \<and>
   callJson (liveResponse okResponse (JObj [(''a'', JNum 1)])) = Inr (JObj [(''a'', JNum 1)]) \<and>
   isMocking (enableMocking (fst (snd
       (smartFetch (examplePlatform (FetchResolves okResponse))
          (exampleMocker True False False) exampleWorld exampleInput None)))) \<and>
   getStoredResponse (enableMocking (fst (snd
       (smartFetch (examplePlatform (FetchResolves okResponse))
          (exampleMocker True False False) exampleWorld exampleInput None))))
     (inputUrl exampleInput) (requestMethod None) (requestBodyOf None) = Some okRecord \<and>
   fst (smartFetch (examplePlatform (FetchResolves notFoundResponse))
          (enableMocking (fst (snd
            (smartFetch (examplePlatform (FetchResolves okResponse))
              (exampleMocker True False False) exampleWorld exampleInput None))))
          (snd (snd
            (smartFetch (examplePlatform (FetchResolves okResponse))
              (exampleMocker True False False) exampleWorld exampleInput None)))
          exampleInput None)
     = Inr (cacheHitResponse okRecord) \<and>
   trace (snd (snd (smartFetch (examplePlatform (FetchResolves notFoundResponse))
          (enableMocking (fst (snd
            (smartFetch (examplePlatform (FetchResolves okResponse))
              (exampleMocker True False False) exampleWorld exampleInput None))))
          (snd (snd
            (smartFetch (examplePlatform (FetchResolves okResponse))
              (exampleMocker True False False) exampleWorld exampleInput None)))
          exampleInput None)))
     = [LiveCall ''https://x/y'' None, SaveResponsesCall [(exampleKey, okRecord)]] \<and>
   callJson (cacheHitResponse okRecord)
     = Inr (JObj [(''data'', JObj [(''a'', JNum 1)]), (''error'', JNull),
                  (''success'', JBool True)]) \<and>
   callJson (cacheHitResponse okRecord) \<noteq> Inr (JObj [(''a'', JNum 1)])"
proof -
  have live: "callJson (liveResponse okResponse (JObj [(''a'', JNum 1)]))
      = Inr (JObj [(''a'', JNum 1)])"
    by (simp add: callJson_def liveResponse_def)
  have replay: "callJson (cacheHitResponse okRecord)
     = Inr (JObj [(''data'', JObj [(''a'', JNum 1)]), (''error'', JNull),
                  (''success'', JBool True)])"
    by (simp add: callJson_def cacheHitResponse_def okRecord_def)
  have t: "trace (recordedWorld okRecord)
      = [LiveCall ''https://x/y'' None, SaveResponsesCall [(exampleKey, okRecord)]]"
    by (simp add: recordedWorld_def)
  note m = recorded_mocking [of "recordedMocker True False False okRecord"]
  note l = recorded_lookup [of True False False okRecord]
  from live replay t m l smartFetch_cache_hit [OF m l,
      of "examplePlatform (FetchResolves notFoundResponse)" "recordedWorld okRecord"]
  show ?thesis by (simp add: recorded_run)
qed

text \<open>
  C2. The claim: a cache hit on a record whose stored outcome is a failure
  (\<open>success: false\<close>) is replayed as a failure when error storage is enabled. The
  source stores the failure and never replays it as one. With real and error storage
  both enabled, a live call answered 404 is rejected and its failure is stored (lines
  308 to 331); after mocking is enabled, and with error storage still enabled, the same
  request hits that record and \<open>smartFetch\<close> resolves, with \<open>ok = true\<close> and status
  200 (lines 252 and 253), where the live call had rejected with \<open>ok = false\<close>.
\<close>

theorem C2_stored_failure_replayed_as_success:
  "fst (smartFetch (examplePlatform (FetchResolves notFoundResponse))
          (exampleMocker True True False) exampleWorld exampleInput None)
     = Inl (RejectMock (failureResponse notFoundError)) \<and>
   \<not> mr_ok (failureResponse notFoundError) \<and>
   storeErrorResponses (options (enableMocking (fst (snd
       (smartFetch (examplePlatform (FetchResolves notFoundResponse))
          (exampleMocker True True False) exampleWorld exampleInput None))))) \<and>
   getStoredResponse (enableMocking (fst (snd
       (smartFetch (examplePlatform (FetchResolves notFoundResponse))
          (exampleMocker True True False) exampleWorld exampleInput None))))
     (inputUrl exampleInput) (requestMethod None) (requestBodyOf None) = Some notFoundRecord \<and>
   sr_response notFoundRecord = errorPayload notFoundError \<and>
   fst (smartFetch (examplePlatform (FetchResolves notFoundResponse))
          (enableMocking (fst (snd
            (smartFetch (examplePlatform (FetchResolves notFoundResponse))
              (exampleMocker True True False) exampleWorld exampleInput None))))
          (snd (snd
            (smartFetch (examplePlatform (FetchResolves notFoundResponse))
              (exampleMocker True True False) exampleWorld exampleInput None)))
          exampleInput None)
     = Inr (cacheHitResponse notFoundRecord) \<and>
   mr_ok (cacheHitResponse notFoundRecord) \<and>
   mr_status (cacheHitResponse notFoundRecord) = 200"
proof -
  have e: "storeErrorResponses
      (options (enableMocking (recordedMocker True True False notFoundRecord)))"
    by (simp add: enableMocking_def recordedMocker_def exampleMocker_def)
  have r: "sr_response notFoundRecord = errorPayload notFoundError"
    by (simp add: notFoundRecord_def)
  have f: "\<not> mr_ok (failureResponse notFoundError)"
    by (simp add: failureResponse_def)
  note m = recorded_mocking [of "recordedMocker True True False notFoundRecord"]
  note l = recorded_lookup [of True True False notFoundRecord]
  from e r f l cache_hit_fields(2,3) [of notFoundRecord] smartFetch_cache_hit [OF m l,
      of "examplePlatform (FetchResolves notFoundResponse)" "recordedWorld notFoundRecord"]
  show ?thesis by (simp add: failed_run)
qed

text \<open>
  C10. On a cache hit the returned object's \<open>clone\<close> closure reads the variable
  \<open>response\<close>, whose declaration was never reached, so calling it throws; \<open>json()\<close>
  resolves to the stored payload, \<open>text()\<close> resolves to its serialisation, and
  \<open>headers\<close>, \<open>ok\<close> and \<open>status\<close> are plain fields.
\<close>

theorem C10_cache_hit_clone_throws:
  assumes "isMocking st"
    and "getStoredResponse st (inputUrl input) (requestMethod init) (requestBodyOf init)
           = Some storedRecord"
  shows "fst (smartFetch p st w input init) = Inr (cacheHitResponse storedRecord) \<and>
         isl (callClone p (cacheHitResponse storedRecord)) \<and>
         callJson (cacheHitResponse storedRecord) = Inr (sr_response storedRecord) \<and>
         callText p (cacheHitResponse storedRecord)
           = Inr (stringify (sr_response storedRecord)) \<and>
         mr_headers (cacheHitResponse storedRecord) = sr_headers storedRecord \<and>
         mr_ok (cacheHitResponse storedRecord) \<and>
         mr_status (cacheHitResponse storedRecord) = 200"
  using smartFetch_cache_hit [OF assms]
  by (simp add: cacheHitResponse_def callClone_def callJson_def callText_def)

theorem C10_witness:
  "isMocking (enableMocking (recordedMocker True False False okRecord)) \<and>
   getStoredResponse (enableMocking (recordedMocker True False False okRecord))
     (inputUrl exampleInput) (requestMethod None) (requestBodyOf None) = Some okRecord \<and>
   fst (smartFetch (examplePlatform (FetchResolves okResponse))
          (enableMocking (recordedMocker True False False okRecord))
          (recordedWorld okRecord) exampleInput None)
     = Inr (cacheHitResponse okRecord) \<and>
   isl (callClone (examplePlatform (FetchResolves okResponse)) (cacheHitResponse okRecord)) \<and>
   callJson (cacheHitResponse okRecord) = Inr (sr_response okRecord) \<and>
   callText (examplePlatform (FetchResolves okResponse)) (cacheHitResponse okRecord)
     = Inr (stringify (sr_response okRecord)) \<and>
   mr_headers (cacheHitResponse okRecord) = Some [(''content-type'', ''application/json'')] \<and>
   mr_ok (cacheHitResponse okRecord) \<and>
   mr_status (cacheHitResponse okRecord) = 200"
proof -
  have h: "sr_headers okRecord = Some [(''content-type'', ''application/json'')]"
    by (simp add: okRecord_def)
  note m = recorded_mocking [of "recordedMocker True False False okRecord"]
  note l = recorded_lookup [of True False False okRecord]
  from C10_cache_hit_clone_throws [OF m l,
      of "examplePlatform (FetchResolves okResponse)" "recordedWorld okRecord"] m l h
  show ?thesis by simp
qed

section \<open>Live calls and what they store\<close>

lemma smartFetch_failure_unstored:
  assumes "smartFetchTry p st w input init = (Inl e, st1, w1)"
    and "\<not> (storeRealResponses (options st1) \<and> storeErrorResponses (options st1))"
  shows "smartFetch p st w input init = (Inl (RejectMock (failureResponse e)), st1, w1)"
  using assms by (simp add: smartFetch_def smartFetchCatch_unstored)

lemma smartFetch_failure_written:
  assumes "smartFetchTry p st w input init = (Inl e, st1, w1)"
    and "writeError w1 = None"
  shows "fst (smartFetch p st w input init) = Inl (RejectMock (failureResponse e))"
  using assms
  by (simp add: smartFetch_def smartFetchCatch_def saveToStorage_def saveResponses_def
      writeFile_def Let_def)

lemma getStoredResponse_update:
  "getStoredResponse (st\<lparr>storedResponses := AList.update (requestKey url method body) r
       (storedResponses st)\<rparr>) url method body = Some r"
  by (simp add: getStoredResponse_def update_conv')

text \<open>
  C7. With \<open>storeRealResponses\<close> true and \<open>storeErrorResponses\<close> false, a request that
  goes to the live call (mocking off, or no record under its fingerprint) leaves the
  instance and the storage file exactly as they were when the live call fails, whether
  it throws, answers with a status that is not ok, or answers with a body that does not
  parse. When the live call succeeds, the cache afterwards holds the success record under
  the request's fingerprint, and the storage file, written without error, holds the
  whole cache.
\<close>

theorem C7_error_gating:
  assumes "storeRealResponses (options st)" and "\<not> storeErrorResponses (options st)"
    and "\<not> isMocking st \<or>
      getStoredResponse st (inputUrl input) (requestMethod init) (requestBodyOf init) = None"
  shows
    "(fetch p (inputUrl input) init = FetchThrows e \<longrightarrow>
        fst (snd (smartFetch p st w input init)) = st \<and>
        durable (snd (snd (smartFetch p st w input init))) = durable w) \<and>
     (fetch p (inputUrl input) init = FetchResolves r \<and> \<not> resp_ok r \<longrightarrow>
        fst (snd (smartFetch p st w input init)) = st \<and>
        durable (snd (snd (smartFetch p st w input init))) = durable w) \<and>
     (fetch p (inputUrl input) init = FetchResolves r \<and> resp_ok r \<and> resp_json r = Inl e \<longrightarrow>
        fst (snd (smartFetch p st w input init)) = st \<and>
        durable (snd (snd (smartFetch p st w input init))) = durable w) \<and>
     (fetch p (inputUrl input) init = FetchResolves r \<and> resp_ok r \<and> resp_json r = Inr data \<longrightarrow>
        getStoredResponse (fst (snd (smartFetch p st w input init)))
            (inputUrl input) (requestMethod init) (requestBodyOf init)
          = Some (successRecord p input init r data) \<and>
        (writeError w = None \<longrightarrow>
           durable (snd (snd (smartFetch p st w input init)))
             = FileHolds (storedResponses (fst (snd (smartFetch p st w input init))))))"
proof -
  note miss = assms(3)
  have gate: "\<not> (storeRealResponses (options st) \<and> storeErrorResponses (options st))"
    using assms(2) by simp
  have throws: "fst (snd (smartFetch p st w input init)) = st \<and>
      durable (snd (snd (smartFetch p st w input init))) = durable w"
    if "fetch p (inputUrl input) init = FetchThrows e"
    using smartFetch_failure_unstored [OF smartFetchTry_throws [OF miss that] gate, of w]
    by simp
  have http: "fst (snd (smartFetch p st w input init)) = st \<and>
      durable (snd (snd (smartFetch p st w input init))) = durable w"
    if "fetch p (inputUrl input) init = FetchResolves r" and "\<not> resp_ok r"
    using smartFetch_failure_unstored [OF smartFetchTry_http [OF miss that] gate, of w]
    by simp
  have parse: "fst (snd (smartFetch p st w input init)) = st \<and>
      durable (snd (snd (smartFetch p st w input init))) = durable w"
    if "fetch p (inputUrl input) init = FetchResolves r" and "resp_ok r"
      and "resp_json r = Inl e"
    using smartFetch_failure_unstored [OF smartFetchTry_parse [OF miss that] gate, of w]
    by simp
  have success: "getStoredResponse (fst (snd (smartFetch p st w input init)))
            (inputUrl input) (requestMethod init) (requestBodyOf init)
          = Some (successRecord p input init r data) \<and>
        (writeError w = None \<longrightarrow>
           durable (snd (snd (smartFetch p st w input init)))
             = FileHolds (storedResponses (fst (snd (smartFetch p st w input init)))))"
    if "fetch p (inputUrl input) init = FetchResolves r" and "resp_ok r"
      and "resp_json r = Inr data"
  proof (cases "writeError w")
    case None
    then show ?thesis
      using smartFetchTry_success_stored [OF miss that assms(1), of w]
      by (simp add: smartFetch_def Let_def getStoredResponse_update)
  next
    case (Some e')
    then show ?thesis
      using smartFetchTry_success_stored [OF miss that assms(1), of w] assms(2)
      by (simp add: smartFetch_def Let_def getStoredResponse_update smartFetchCatch_def)
  qed
  from throws http parse success show ?thesis by blast
qed

theorem C7_witness:
  "storeRealResponses (options (exampleMocker True False False)) \<and>
   \<not> storeErrorResponses (options (exampleMocker True False False)) \<and>
   \<not> isMocking (exampleMocker True False False) \<and>
   \<not> resp_ok notFoundResponse \<and>
   fst (snd (smartFetch (examplePlatform (FetchResolves notFoundResponse))
          (exampleMocker True False False) exampleWorld exampleInput None))
     = exampleMocker True False False \<and>
   durable (snd (snd (smartFetch (examplePlatform (FetchResolves notFoundResponse))
          (exampleMocker True False False) exampleWorld exampleInput None)))
     = FileMissing \<and>
   resp_ok okResponse \<and>
   resp_json okResponse = Inr (JObj [(''a'', JNum 1)]) \<and>
   getStoredResponse
       (fst (snd (smartFetch (examplePlatform (FetchResolves okResponse))
          (exampleMocker True False False) exampleWorld exampleInput None)))
       (inputUrl exampleInput) (requestMethod None) (requestBodyOf None)
     = Some okRecord \<and>
   durable (snd (snd (smartFetch (examplePlatform (FetchResolves okResponse))
          (exampleMocker True False False) exampleWorld exampleInput None)))
     = FileHolds [(exampleKey, okRecord)]"
proof -
  have s: "storeRealResponses (options (exampleMocker True False False))"
    by (simp add: example_options)
  have n: "\<not> storeErrorResponses (options (exampleMocker True False False))"
    by (simp add: example_options)
  have m: "\<not> isMocking (exampleMocker True False False)"
    by (simp add: example_options)
  note miss = example_miss [of True False]
  have w: "writeError exampleWorld = None" "durable exampleWorld = FileMissing"
    by (simp_all add: exampleWorld_def)
  note failing = C7_error_gating [OF s n miss,
      of "examplePlatform (FetchResolves notFoundResponse)" _ exampleWorld notFoundResponse]
  note succeeding = C7_error_gating [OF s n miss,
      of "examplePlatform (FetchResolves okResponse)" _ exampleWorld okResponse
         "JObj [(''a'', JNum 1)]"]
  from failing succeeding s n m w example_ok example_not_found
  show ?thesis
    by (simp add: example_fetch example_success_record recorded_run recordedMocker_def)
qed

lemma unstored_success:
  assumes "\<not> storeRealResponses (options st)"
    and "\<not> isMocking st \<or>
      getStoredResponse st (inputUrl input) (requestMethod init) (requestBodyOf init) = None"
    and "fetch p (inputUrl input) init = FetchResolves r"
    and "resp_ok r" and "resp_json r = Inr data"
  shows "smartFetch p st w input init =
      (Inr (liveResponse r data), st, w\<lparr>trace := trace w @ [LiveCall (inputUrl input) init]\<rparr>)"
  using smartFetchTry_success_unstored [OF assms(2-5) assms(1), of w]
  by (simp add: smartFetch_def)

text \<open>
  C5, as the source has it. With real-response storage disabled, a successful live call
  resolves with the live response and stores nothing anywhere: the instance, and with it
  the in-memory cache, is exactly as before (a later lookup under any fingerprint finds
  what it found before the call), and the storage file is untouched.
\<close>

theorem C5_disabled_storage_stores_nothing:
  assumes "\<not> storeRealResponses (options st)"
    and "\<not> isMocking st \<or>
      getStoredResponse st (inputUrl input) (requestMethod init) (requestBodyOf init) = None"
    and "fetch p (inputUrl input) init = FetchResolves r"
    and "resp_ok r" and "resp_json r = Inr data"
  shows "fst (smartFetch p st w input init) = Inr (liveResponse r data) \<and>
         storedResponses (fst (snd (smartFetch p st w input init))) = storedResponses st \<and>
         getStoredResponse (fst (snd (smartFetch p st w input init))) url method body
           = getStoredResponse st url method body \<and>
         durable (snd (snd (smartFetch p st w input init))) = durable w"
  using unstored_success [OF assms, of w] by simp

theorem C5_witness:
  "\<not> storeRealResponses (options (exampleMocker False False False)) \<and>
   \<not> isMocking (exampleMocker False False False) \<and>
   resp_ok okResponse \<and>
   resp_json okResponse = Inr (JObj [(''a'', JNum 1)]) \<and>
   fst (smartFetch (examplePlatform (FetchResolves okResponse))
          (exampleMocker False False False) exampleWorld exampleInput None)
     = Inr (liveResponse okResponse (JObj [(''a'', JNum 1)])) \<and>
   storedResponses (fst (snd (smartFetch (examplePlatform (FetchResolves okResponse))
          (exampleMocker False False False) exampleWorld exampleInput None))) = [] \<and>
   getStoredResponse (fst (snd (smartFetch (examplePlatform (FetchResolves okResponse))
          (exampleMocker False False False) exampleWorld exampleInput None)))
       ''https://x/y'' ''GET'' JUndefined = None \<and>
   durable (snd (snd (smartFetch (examplePlatform (FetchResolves okResponse))
          (exampleMocker False False False) exampleWorld exampleInput None))) = FileMissing"
proof -
  have s: "\<not> storeRealResponses (options (exampleMocker False False False))"
    by (simp add: example_options)
  have m: "\<not> isMocking (exampleMocker False False False)"
    by (simp add: example_options)
  have c: "getStoredResponse (exampleMocker False False False) ''https://x/y'' ''GET''
      JUndefined = None"
    by (simp add: getStoredResponse_def example_options)
  have w: "durable exampleWorld = FileMissing"
    by (simp add: exampleWorld_def)
  from C5_disabled_storage_stores_nothing [OF s example_miss example_fetch example_ok,
      of exampleWorld "''https://x/y''" "''GET''" JUndefined] s m c w example_ok
  show ?thesis by (simp add: example_options)
qed

text \<open>
  C5, as the claim states it, fails: with storage disabled a successful live call for
  the example request resolves with the live payload, and the lookup under the same
  url, method and body that follows finds no record.
\<close>

theorem C5_counterexample:
  "\<not> storeRealResponses (options (exampleMocker False False False)) \<and>
   fst (smartFetch (examplePlatform (FetchResolves okResponse))
          (exampleMocker False False False) exampleWorld exampleInput None)
     = Inr (liveResponse okResponse (JObj [(''a'', JNum 1)])) \<and>
   getStoredResponse (fst (snd (smartFetch (examplePlatform (FetchResolves okResponse))
          (exampleMocker False False False) exampleWorld exampleInput None)))
       (inputUrl exampleInput) (requestMethod None) (requestBodyOf None) = None"
proof -
  have s: "\<not> storeRealResponses (options (exampleMocker False False False))"
    by (simp add: example_options)
  from s unstored_success [OF s example_miss example_fetch example_ok, of exampleWorld]
  show ?thesis by (simp add: example_options getStoredResponse_def)
qed

text \<open>
  C8. With \<open>storeRealResponses\<close> false, a successful live call leaves the contents of
  the storage file as they were, and the only outside call it makes is the live call
  itself: no persistence function is called.
\<close>

theorem C8_write_through_gating:
  assumes "\<not> storeRealResponses (options st)"
    and "\<not> isMocking st \<or>
      getStoredResponse st (inputUrl input) (requestMethod init) (requestBodyOf init) = None"
    and "fetch p (inputUrl input) init = FetchResolves r"
    and "resp_ok r" and "resp_json r = Inr data"
  shows "durable (snd (snd (smartFetch p st w input init))) = durable w \<and>
         trace (snd (snd (smartFetch p st w input init)))
           = trace w @ [LiveCall (inputUrl input) init]"
  using unstored_success [OF assms, of w] by simp

theorem C8_witness:
  "\<not> storeRealResponses
       (options (disableRealResponseStorage (recordedMocker True False False okRecord))) \<and>
   \<not> isMocking (disableRealResponseStorage (recordedMocker True False False okRecord)) \<and>
   resp_ok okResponse \<and>
   resp_json okResponse = Inr (JObj [(''a'', JNum 1)]) \<and>
   durable (snd (snd (smartFetch (examplePlatform (FetchResolves okResponse))
          (disableRealResponseStorage (recordedMocker True False False okRecord))
          (recordedWorld notFoundRecord) exampleInput None)))
     = FileHolds [(exampleKey, notFoundRecord)] \<and>
   trace (snd (snd (smartFetch (examplePlatform (FetchResolves okResponse))
          (disableRealResponseStorage (recordedMocker True False False okRecord))
          (recordedWorld notFoundRecord) exampleInput None)))
     = [LiveCall ''https://x/y'' None, SaveResponsesCall [(exampleKey, notFoundRecord)],
        LiveCall ''https://x/y'' None]"
proof -
  have s: "\<not> storeRealResponses
       (options (disableRealResponseStorage (recordedMocker True False False okRecord)))"
    by (simp add: disableRealResponseStorage_def)
  have m: "\<not> isMocking (disableRealResponseStorage (recordedMocker True False False okRecord))"
    by (simp add: disableRealResponseStorage_def recordedMocker_def example_options)
  then have miss: "\<not> isMocking (disableRealResponseStorage (recordedMocker True False False okRecord)) \<or>
      getStoredResponse (disableRealResponseStorage (recordedMocker True False False okRecord))
        (inputUrl exampleInput) (requestMethod None) (requestBodyOf None) = None"
    by simp
  from C8_write_through_gating [OF s miss example_fetch example_ok,
      of "recordedWorld notFoundRecord"] s m example_ok
  show ?thesis by (simp add: recordedWorld_def example_request)
qed

text \<open>
  C6, as the source has it. A failed live call is surfaced as a rejection whose status is
  0 when the value caught is an \<open>Error\<close> named \<open>TypeError\<close> and 500 in every other case.
  A response with a non-success status is turned into an \<open>Error\<close> named \<open>Error\<close>, so
  its failure always has status 500: the response's own status code, its status text and
  its parsed body are carried only inside the message, which is also the failure's
  status text. (The second premise excludes only the run in which the error record is to
  be stored and writing the file fails: that run rejects with the error of the file
  system instead.)
\<close>

theorem C6_failure_status:
  assumes "\<not> isMocking st \<or>
      getStoredResponse st (inputUrl input) (requestMethod init) (requestBodyOf init) = None"
    and "writeError w = None \<or> \<not> storeRealResponses (options st) \<or>
      \<not> storeErrorResponses (options st)"
  shows
    "(fetch p (inputUrl input) init = FetchThrows e \<longrightarrow>
        fst (smartFetch p st w input init) = Inl (RejectMock (failureResponse e)) \<and>
        mr_status (failureResponse e) = (if isTypeError e then 0 else 500)) \<and>
     (fetch p (inputUrl input) init = FetchResolves r \<and> resp_ok r \<and> resp_json r = Inl e \<longrightarrow>
        fst (smartFetch p st w input init) = Inl (RejectMock (failureResponse e)) \<and>
        mr_status (failureResponse e) = (if isTypeError e then 0 else 500)) \<and>
     (fetch p (inputUrl input) init = FetchResolves r \<and> \<not> resp_ok r \<longrightarrow>
        fst (smartFetch p st w input init)
          = Inl (RejectMock (failureResponse (httpError p r))) \<and>
        mr_status (failureResponse (httpError p r)) = 500 \<and>
        mr_statusText (failureResponse (httpError p r))
          = ''HTTP error! status: '' @ numberToString (resp_status r) @ '', '' @
            resp_statusText r @ '', data: '' @
            (case stringify (case resp_json r of Inl e \<Rightarrow> JObj [] | Inr d \<Rightarrow> d) of
               None \<Rightarrow> ''undefined'' | Some s \<Rightarrow> s))"
proof -
  note miss = assms(1)
  have surfaced: "fst (smartFetch p st w input init) = Inl (RejectMock (failureResponse x))"
    if "smartFetchTry p st w input init
          = (Inl x, st, w\<lparr>trace := trace w @ [LiveCall (inputUrl input) init]\<rparr>)" for x
  proof (cases "writeError w = None")
    case True
    then show ?thesis
      using smartFetch_failure_written [OF that] by simp
  next
    case False
    with assms(2) show ?thesis
      using smartFetch_failure_unstored [OF that] by auto
  qed
  have status: "mr_status (failureResponse x) = (if isTypeError x then 0 else 500)" for x
    by (simp add: failureResponse_def)
  have throws: "fst (smartFetch p st w input init) = Inl (RejectMock (failureResponse e))"
    if "fetch p (inputUrl input) init = FetchThrows e"
    by (rule surfaced [OF smartFetchTry_throws [OF miss that]])
  have parse: "fst (smartFetch p st w input init) = Inl (RejectMock (failureResponse e))"
    if "fetch p (inputUrl input) init = FetchResolves r" and "resp_ok r"
      and "resp_json r = Inl e"
    by (rule surfaced [OF smartFetchTry_parse [OF miss that]])
  have http: "fst (smartFetch p st w input init)
      = Inl (RejectMock (failureResponse (httpError p r)))"
    if "fetch p (inputUrl input) init = FetchResolves r" and "\<not> resp_ok r"
    by (rule surfaced [OF smartFetchTry_http [OF miss that]])
  have http_status: "mr_status (failureResponse (httpError p r)) = 500"
    by (simp add: failureResponse_def httpError_def isTypeError_def)
  have http_text: "mr_statusText (failureResponse (httpError p r))
          = ''HTTP error! status: '' @ numberToString (resp_status r) @ '', '' @
            resp_statusText r @ '', data: '' @
            (case stringify (case resp_json r of Inl e \<Rightarrow> JObj [] | Inr d \<Rightarrow> d) of
               None \<Rightarrow> ''undefined'' | Some s \<Rightarrow> s)"
    by (simp add: failureResponse_def httpError_def errorMessage_def)
  from throws parse http status http_status http_text show ?thesis by blast
qed

theorem C6_witness:
  "\<not> isMocking (exampleMocker False False False) \<and>
   writeError exampleWorld = None \<and>
   isTypeError invalidUrlError \<and>
   fst (smartFetch (examplePlatform (FetchThrows invalidUrlError))
          (exampleMocker False False False) exampleWorld exampleInput None)
     = Inl (RejectMock (failureResponse invalidUrlError)) \<and>
   mr_status (failureResponse invalidUrlError) = 0 \<and>
   \<not> resp_ok notFoundResponse \<and>
   fst (smartFetch (examplePlatform (FetchResolves notFoundResponse))
          (exampleMocker False False False) exampleWorld exampleInput None)
     = Inl (RejectMock (failureResponse notFoundError)) \<and>
   mr_status (failureResponse notFoundError) = 500 \<and>
   mr_statusText (failureResponse notFoundError) = emessage notFoundError"
proof -
  have m: "\<not> isMocking (exampleMocker False False False)"
    by (simp add: example_options)
  have w: "writeError exampleWorld = None"
    by (simp add: exampleWorld_def)
  then have w': "writeError exampleWorld = None \<or>
      \<not> storeRealResponses (options (exampleMocker False False False)) \<or>
      \<not> storeErrorResponses (options (exampleMocker False False False))"
    by simp
  have t: "isTypeError invalidUrlError"
    by (simp add: isTypeError_def invalidUrlError_def)
  have x: "mr_statusText (failureResponse notFoundError) = emessage notFoundError"
    by (simp add: failureResponse_def errorMessage_def notFoundError_def)
  note thrown = C6_failure_status [OF example_miss w',
      of "examplePlatform (FetchThrows invalidUrlError)" invalidUrlError]
  note answered = C6_failure_status [OF example_miss w',
      of "examplePlatform (FetchResolves notFoundResponse)" _ notFoundResponse]
  from thrown answered m w t x example_not_found
  show ?thesis by (simp add: example_fetch example_http_error)
qed

text \<open>
  C6, as the claim states it, fails: a live call answered with status 404 is surfaced
  as a failure whose status is 500, not 404.
\<close>

theorem C6_counterexample:
  "resp_status notFoundResponse = 404 \<and>
   fst (smartFetch (examplePlatform (FetchResolves notFoundResponse))
          (exampleMocker False False False) exampleWorld exampleInput None)
     = Inl (RejectMock (failureResponse notFoundError)) \<and>
   mr_status (failureResponse notFoundError) = 500 \<and>
   mr_status (failureResponse notFoundError) \<noteq> resp_status notFoundResponse"
proof -
  have g: "\<not> (storeRealResponses (options (exampleMocker False False False)) \<and>
      storeErrorResponses (options (exampleMocker False False False)))"
    by (simp add: example_options)
  have s: "resp_status notFoundResponse = 404"
    by (simp add: notFoundResponse_def)
  have f: "mr_status (failureResponse notFoundError) = 500"
    by (simp add: failureResponse_def notFoundError_def isTypeError_def)
  from s f smartFetch_failure_unstored
      [OF smartFetchTry_http [OF example_miss example_fetch example_not_found] g,
       of exampleWorld]
  show ?thesis by (simp add: example_http_error)
qed

section \<open>Static mocks and \<open>smartFetch\<close>\<close>

lemma smartFetchTry_ignores_mocks:
  "smartFetchTry p (st\<lparr>mocks := ms\<rparr>) w input init =
     (case smartFetchTry p st w input init of (r, st', w') \<Rightarrow> (r, st'\<lparr>mocks := ms\<rparr>, w'))"
  by (simp add: smartFetchTry_def getStoredResponse_def fetchWithAgent_def saveToStorage_def
      Let_def split: option.splits fetch_outcome.splits sum.splits prod.splits)

lemma smartFetchCatch_ignores_mocks:
  "smartFetchCatch p (st\<lparr>mocks := ms\<rparr>) w input init e =
     (case smartFetchCatch p st w input init e of (r, st', w') \<Rightarrow> (r, st'\<lparr>mocks := ms\<rparr>, w'))"
  by (simp add: smartFetchCatch_def saveToStorage_def
      Let_def split: option.splits fetch_outcome.splits sum.splits prod.splits)

lemma smartFetch_ignores_mocks:
  "smartFetch p (st\<lparr>mocks := ms\<rparr>) w input init =
     (case smartFetch p st w input init of (r, st', w') \<Rightarrow> (r, st'\<lparr>mocks := ms\<rparr>, w'))"
  by (simp add: smartFetch_def smartFetchTry_ignores_mocks smartFetchCatch_ignores_mocks
      split: prod.splits sum.splits)

text \<open>
  C3. The registry is written by \<open>addMock\<close> and read by nothing: \<open>smartFetch\<close> never
  looks at it. After the static mock for GET \<open>/ping\<close> with payload \<open>{pong: true}\<close> and
  delay 50 is registered on an instance with mocking enabled and an empty cache, fetching
  \<open>/ping\<close> consults the response cache, finds nothing and makes the live call: where the
  live call rejects the relative url, the caller gets that failure (status 0), and where
  a server answers, the caller gets the server's payload. The mock's payload is never
  returned and its delay is never applied.
\<close>

theorem C3_static_mock_not_served:
  "mocks (addMock (exampleMocker False False True) pingMock) = [pingMock] \<and>
   mc_response pingMock = JObj [(''pong'', JBool True)] \<and>
   fst (smartFetch (examplePlatform (FetchThrows invalidUrlError))
          (addMock (exampleMocker False False True) pingMock) exampleWorld
          (InputString ''/ping'') None)
     = Inl (RejectMock (failureResponse invalidUrlError)) \<and>
   mr_status (failureResponse invalidUrlError) = 0 \<and>
   trace (snd (snd (smartFetch (examplePlatform (FetchThrows invalidUrlError))
          (addMock (exampleMocker False False True) pingMock) exampleWorld
          (InputString ''/ping'') None)))
     = [LiveCall ''/ping'' None] \<and>
   fst (smartFetch (examplePlatform (FetchResolves okResponse))
          (addMock (exampleMocker False False True) pingMock) exampleWorld
          (InputString ''/ping'') None)
     = Inr (liveResponse okResponse (JObj [(''a'', JNum 1)])) \<and>
   mr_json (liveResponse okResponse (JObj [(''a'', JNum 1)])) = JObj [(''a'', JNum 1)]"
proof -
  let ?st = "addMock (exampleMocker False False True) pingMock"
  have reg: "mocks ?st = [pingMock]"
    by (simp add: addMock_def exampleMocker_def pingMock_def)
  have opts: "\<not> (storeRealResponses (options ?st) \<and> storeErrorResponses (options ?st))"
    "\<not> storeRealResponses (options ?st)"
    by (simp_all add: addMock_def exampleMocker_def pingMock_def)
  have miss: "\<not> isMocking ?st \<or>
      getStoredResponse ?st (inputUrl (InputString ''/ping'')) (requestMethod None)
        (requestBodyOf None) = None"
    by (simp add: addMock_def exampleMocker_def pingMock_def getStoredResponse_def)
  have u: "inputUrl (InputString ''/ping'') = ''/ping''"
    by (simp add: inputUrl_def)
  have payload: "mc_response pingMock = JObj [(''pong'', JBool True)]"
    by (simp add: pingMock_def)
  have status: "mr_status (failureResponse invalidUrlError) = 0"
    by (simp add: failureResponse_def isTypeError_def invalidUrlError_def)
  have json: "mr_json (liveResponse okResponse (JObj [(''a'', JNum 1)])) = JObj [(''a'', JNum 1)]"
    by (simp add: liveResponse_def)
  from reg payload status json
    smartFetch_failure_unstored
      [OF smartFetchTry_throws [OF miss example_fetch [of "FetchThrows invalidUrlError"]]
        opts(1), of exampleWorld]
    unstored_success [OF opts(2) miss example_fetch example_ok, of exampleWorld]
  show ?thesis by (simp add: u exampleWorld_def)
qed

section \<open>Clearing the stored responses\<close>

lemma clearStoredResponses_enabled:
  assumes "storeRealResponses (options st)"
  shows "clearStoredResponses st w =
     (case writeError w of
        None \<Rightarrow> (Inr (), st\<lparr>storedResponses := []\<rparr>,
                 w\<lparr>trace := trace w @ [SaveResponsesCall []], durable := FileHolds []\<rparr>)
      | Some e \<Rightarrow> (Inl e, st\<lparr>storedResponses := []\<rparr>,
                   w\<lparr>trace := trace w @ [SaveResponsesCall []]\<rparr>))"
  using assms
  by (simp add: clearStoredResponses_def saveToStorage_def saveResponses_def writeFile_def
      split: option.splits)

lemma clearStoredResponses_disabled:
  assumes "\<not> storeRealResponses (options st)"
  shows "clearStoredResponses st w = (Inr (), st\<lparr>storedResponses := []\<rparr>, w)"
  using assms by (simp add: clearStoredResponses_def saveToStorage_def)

lemma clearResponses_durable:
  "durable (snd (clearResponses w)) = (if writeError w = None then FileHolds [] else durable w)"
  by (simp add: clearResponses_def writeFile_def split: option.splits)

text \<open>
  C4, as the source has it. \<open>clearStoredResponses\<close> empties the in-memory mapping for
  every prior cache and every configuration, and it never calls \<open>clearResponses\<close>. When
  real-response storage is enabled it calls \<open>saveResponses\<close> with the empty mapping,
  which (the write succeeding) leaves the storage file with the content \<open>clearResponses\<close>
  would have written; when the write fails the error is thrown to the caller and the
  file is as before. When real-response storage is disabled the world is left exactly as
  it was: no persistence function is called and the file keeps its records.
\<close>

theorem C4_clear_stored_responses:
  "storedResponses (fst (snd (clearStoredResponses st w))) = [] \<and>
   getStoredResponse (fst (snd (clearStoredResponses st w))) url method body = None \<and>
   (storeRealResponses (options st) \<longrightarrow>
      trace (snd (snd (clearStoredResponses st w))) = trace w @ [SaveResponsesCall []] \<and>
      (writeError w = None \<longrightarrow>
         fst (clearStoredResponses st w) = Inr () \<and>
         durable (snd (snd (clearStoredResponses st w))) = FileHolds [] \<and>
         durable (snd (snd (clearStoredResponses st w))) = durable (snd (clearResponses w))) \<and>
      (writeError w = Some e \<longrightarrow>
         fst (clearStoredResponses st w) = Inl e \<and>
         durable (snd (snd (clearStoredResponses st w))) = durable w)) \<and>
   (\<not> storeRealResponses (options st) \<longrightarrow>
      fst (clearStoredResponses st w) = Inr () \<and>
      snd (snd (clearStoredResponses st w)) = w)"
proof (cases "storeRealResponses (options st)")
  case True
  then show ?thesis
    by (simp add: clearStoredResponses_enabled clearResponses_durable getStoredResponse_def
        split: option.splits)
next
  case False
  then show ?thesis
    by (simp add: clearStoredResponses_disabled getStoredResponse_def)
qed

theorem C4_witness:
  "storeRealResponses (options (recordedMocker True False False okRecord)) \<and>
   writeError (recordedWorld okRecord) = None \<and>
   storedResponses (fst (snd (clearStoredResponses (recordedMocker True False False okRecord)
       (recordedWorld okRecord)))) = [] \<and>
   trace (snd (snd (clearStoredResponses (recordedMocker True False False okRecord)
       (recordedWorld okRecord))))
     = [LiveCall ''https://x/y'' None, SaveResponsesCall [(exampleKey, okRecord)],
        SaveResponsesCall []] \<and>
   durable (snd (snd (clearStoredResponses (recordedMocker True False False okRecord)
       (recordedWorld okRecord)))) = FileHolds [] \<and>
   \<not> storeRealResponses (options (disableRealResponseStorage
       (recordedMocker True False False okRecord))) \<and>
   storedResponses (fst (snd (clearStoredResponses
       (disableRealResponseStorage (recordedMocker True False False okRecord))
       (recordedWorld okRecord)))) = [] \<and>
   snd (snd (clearStoredResponses
       (disableRealResponseStorage (recordedMocker True False False okRecord))
       (recordedWorld okRecord))) = recordedWorld okRecord"
proof -
  have s: "storeRealResponses (options (recordedMocker True False False okRecord))"
    by (simp add: recordedMocker_def example_options)
  have d: "\<not> storeRealResponses (options (disableRealResponseStorage
       (recordedMocker True False False okRecord)))"
    by (simp add: disableRealResponseStorage_def)
  have w: "writeError (recordedWorld okRecord) = None"
    by (simp add: recordedWorld_def)
  have t: "trace (recordedWorld okRecord)
     = [LiveCall ''https://x/y'' None, SaveResponsesCall [(exampleKey, okRecord)]]"
    by (simp add: recordedWorld_def)
  from C4_clear_stored_responses [of "recordedMocker True False False okRecord"
      "recordedWorld okRecord"]
    C4_clear_stored_responses [of "disableRealResponseStorage
      (recordedMocker True False False okRecord)" "recordedWorld okRecord"] s d w t
  show ?thesis by simp
qed

text \<open>
  C4, as the claim states it, fails. An instance with real-response storage enabled
  records a live response, which writes the storage file; storage is then disabled and
  \<open>clearStoredResponses\<close> is called. The cache is emptied, no call to \<open>clearResponses\<close>
  is made, and the storage file still holds the record, where \<open>clearResponses\<close> would
  have left it empty.
\<close>

theorem C4_counterexample:
  "storedResponses (fst (snd (clearStoredResponses
       (disableRealResponseStorage (fst (snd
          (smartFetch (examplePlatform (FetchResolves okResponse))
             (exampleMocker True False False) exampleWorld exampleInput None))))
       (snd (snd
          (smartFetch (examplePlatform (FetchResolves okResponse))
             (exampleMocker True False False) exampleWorld exampleInput None)))))) = [] \<and>
   ClearResponsesCall \<notin> set (trace (snd (snd (clearStoredResponses
       (disableRealResponseStorage (fst (snd
          (smartFetch (examplePlatform (FetchResolves okResponse))
             (exampleMocker True False False) exampleWorld exampleInput None))))
       (snd (snd
          (smartFetch (examplePlatform (FetchResolves okResponse))
             (exampleMocker True False False) exampleWorld exampleInput None))))))) \<and>
   durable (snd (snd (clearStoredResponses
       (disableRealResponseStorage (fst (snd
          (smartFetch (examplePlatform (FetchResolves okResponse))
             (exampleMocker True False False) exampleWorld exampleInput None))))
       (snd (snd
          (smartFetch (examplePlatform (FetchResolves okResponse))
             (exampleMocker True False False) exampleWorld exampleInput None))))))
     = FileHolds [(exampleKey, okRecord)] \<and>
   durable (snd (clearResponses (snd (snd
          (smartFetch (examplePlatform (FetchResolves okResponse))
             (exampleMocker True False False) exampleWorld exampleInput None)))))
     = FileHolds []"
proof -
  have d: "\<not> storeRealResponses (options (disableRealResponseStorage
       (recordedMocker True False False okRecord)))"
    by (simp add: disableRealResponseStorage_def)
  show ?thesis
    unfolding recorded_run
    by (simp add: clearStoredResponses_disabled [OF d] clearResponses_durable recordedWorld_def)
qed

end
